theory Spec2Isabelle
  imports Main
begin

section \<open>Data model\<close>

text \<open>
  The authentication service keeps two tables (User and Session, the Prisma models quoted in
  docs/refresh_token_implementation.md) and hands out signed JSON web tokens. Times are
  seconds since the epoch, the unit of the \<open>iat\<close> and \<open>exp\<close> claims of a token.
\<close>

subsection \<open>Tokens\<close>

text \<open>
  The claim set of a token. \<open>login\<close> and \<open>refreshToken\<close> sign \<open>{sub}\<close> and
  \<open>{sub, jti}\<close>, \<open>generateTokens\<close> signs \<open>{sub, email}\<close>; a claim that was not
  signed is \<open>None\<close> (\<open>undefined\<close> in the code). The JWT library adds \<open>iat\<close> and
  \<open>exp\<close>.
\<close>

record claims =
  sub :: int
  email :: "string option"
  jti :: "string option"
  iat :: nat
  exp :: nat

text \<open>
  A token is a string in the code. The model is symbolic: \<open>Jwt k c\<close> is the claim set
  \<open>c\<close> signed with the secret \<open>k\<close>, and \<open>Malformed s\<close> is any other string.
\<close>

datatype token = Jwt string claims | Malformed string

datatype prisma_failure =
  Unavailable | UniqueConstraintViolation | ForeignKeyViolation | RecordNotFound

text \<open>
  Every exception the code can raise: the two HTTP exceptions it throws itself, the two
  failures of token verification, and the errors of the Prisma client.
\<close>

datatype error =
    UnauthorizedException string
  | ForbiddenException string
  | TokenInvalid
  | TokenExpired
  | PrismaError prisma_failure

text \<open>The secrets that \<open>configService.get\<close> returns.\<close>

record config =
  JWT_SECRET :: string
  JWT_REFRESH_SECRET :: string

text \<open>The \<open>expiresIn\<close> options \<open>'15m'\<close> and \<open>'7d'\<close>, in seconds.\<close>

definition expiresIn_15m :: nat where
  "expiresIn_15m = 15 * 60"

definition expiresIn_7d :: nat where
  "expiresIn_7d = 7 * 24 * 60 * 60"

text \<open>
  Modelled from the spec: \<open>mint\<close> of the token codec. The code calls \<open>JwtService.sign\<close>
  of the package @nestjs/jwt, which is not among the sources. Following section 4.2 of the
  specification, it signs the claims with the secret it is given and stamps the issue time
  and the expiry time, the issue time plus the lifetime of the kind.
\<close>

definition jwt_sign :: "nat \<Rightarrow> int \<Rightarrow> string option \<Rightarrow> string option \<Rightarrow> string \<Rightarrow> nat \<Rightarrow> token" where
  "jwt_sign now s e j secret expiresIn =
     Jwt secret \<lparr>sub = s, email = e, jti = j, iat = now, exp = now + expiresIn\<rparr>"

text \<open>
  Modelled from the spec: \<open>verify\<close> of the token codec. The code calls
  \<open>JwtService.verify\<close> for refresh tokens, and access tokens are verified by
  \<open>./guards/jwt-auth.guard\<close>; neither is among the sources. Following section 4.2, it
  checks the signature against the secret (\<open>TokenInvalid\<close>) and the expiry against the
  current time (\<open>TokenExpired\<close>); following section 8, a token is accepted until exactly
  its expiry time and rejected after it.
\<close>

fun jwt_verify :: "nat \<Rightarrow> token \<Rightarrow> string \<Rightarrow> error + claims" where
  "jwt_verify now (Jwt k c) secret =
     (if k \<noteq> secret then Inl TokenInvalid
      else if exp c < now then Inl TokenExpired
      else Inr c)"
| "jwt_verify now (Malformed s) secret = Inl TokenInvalid"

subsection \<open>Password hashing\<close>

text \<open>
  \<open>bcrypt.hash\<close> and \<open>bcrypt.compare\<close> belong to an external library. The model is the
  ideal one: a hash determines the data it was made from, and \<open>compare\<close> succeeds on
  exactly that data. Salt and cost factor are not modelled.
\<close>

datatype 'a bcrypt = Bcrypt 'a

definition bcrypt_hash :: "'a \<Rightarrow> 'a bcrypt" where
  "bcrypt_hash x = Bcrypt x"

fun bcrypt_compare :: "'a \<Rightarrow> 'a bcrypt \<Rightarrow> bool" where
  "bcrypt_compare x (Bcrypt y) = (x = y)"

subsection \<open>The two tables\<close>

record user =
  user_id :: int
  user_email :: string
  user_password :: "string bcrypt"
  user_name :: string
  user_createdAt :: nat
  user_refreshToken :: "token bcrypt option"

record session =
  session_id :: int
  session_userId :: int
  session_jti :: string
  session_userAgent :: string
  session_ip :: string
  session_refreshToken :: token
  session_createdAt :: nat
  session_updatedAt :: nat

text \<open>
  The database behind \<open>PrismaService\<close>: the rows of both tables in insertion order, the
  next value of each autoincrement column, and the health of the connection. \<open>outage\<close>
  is \<open>None\<close> while the database answers; \<open>Some n\<close> means that \<open>n\<close> more calls are
  answered and every later call fails.
\<close>

record store =
  users :: "user list"
  sessions :: "session list"
  user_seq :: int
  session_seq :: int
  outage :: "nat option"

definition empty_store :: store where
  "empty_store = \<lparr>users = [], sessions = [], user_seq = 1, session_seq = 1, outage = None\<rparr>"

text \<open>An operation returns a value or throws, and leaves the store in some state.\<close>

type_synonym 'a result = "(error + 'a) \<times> store"

section \<open>The Prisma client\<close>

text \<open>
  The Prisma client is an external library; each call the code makes is modelled by the
  rows its documentation says it returns, changes or rejects. Every call reaches the
  database first; \<open>None\<close> is a failed call.
\<close>

definition store_call :: "store \<Rightarrow> store option" where
  "store_call d =
     (case outage d of
        None \<Rightarrow> Some d
      | Some 0 \<Rightarrow> None
      | Some (Suc n) \<Rightarrow> Some (d\<lparr>outage := Some n\<rparr>))"

text \<open>\<open>prisma.user.create({ data })\<close>; \<open>email\<close> is \<open>@unique\<close>.\<close>

definition prisma_user_create :: "nat \<Rightarrow> store \<Rightarrow> string \<Rightarrow> string bcrypt \<Rightarrow> string \<Rightarrow> user result" where
  "prisma_user_create now d em pw nm =
     (case store_call d of
        None \<Rightarrow> (Inl (PrismaError Unavailable), d)
      | Some d1 \<Rightarrow>
          (case find (\<lambda>u. user_email u = em) (users d1) of
             Some u \<Rightarrow> (Inl (PrismaError UniqueConstraintViolation), d1)
           | None \<Rightarrow>
               (let u = \<lparr>user_id = user_seq d1, user_email = em, user_password = pw,
                          user_name = nm, user_createdAt = now, user_refreshToken = None\<rparr>
                in (Inr u, d1\<lparr>users := users d1 @ [u], user_seq := user_seq d1 + 1\<rparr>))))"

text \<open>\<open>prisma.user.findUnique({ where: { email } })\<close> and \<open>({ where: { id } })\<close>.\<close>

definition prisma_user_findUnique_email :: "store \<Rightarrow> string \<Rightarrow> user option result" where
  "prisma_user_findUnique_email d em =
     (case store_call d of
        None \<Rightarrow> (Inl (PrismaError Unavailable), d)
      | Some d1 \<Rightarrow> (Inr (find (\<lambda>u. user_email u = em) (users d1)), d1))"

definition prisma_user_findUnique_id :: "store \<Rightarrow> int \<Rightarrow> user option result" where
  "prisma_user_findUnique_id d i =
     (case store_call d of
        None \<Rightarrow> (Inl (PrismaError Unavailable), d)
      | Some d1 \<Rightarrow> (Inr (find (\<lambda>u. user_id u = i) (users d1)), d1))"

text \<open>
  \<open>prisma.user.update({ where: { id }, data: { refreshToken } })\<close>: the update of a row
  that does not exist throws.
\<close>

definition prisma_user_update_refreshToken :: "store \<Rightarrow> int \<Rightarrow> token bcrypt option \<Rightarrow> user result" where
  "prisma_user_update_refreshToken d i rt =
     (case store_call d of
        None \<Rightarrow> (Inl (PrismaError Unavailable), d)
      | Some d1 \<Rightarrow>
          (case find (\<lambda>u. user_id u = i) (users d1) of
             None \<Rightarrow> (Inl (PrismaError RecordNotFound), d1)
           | Some u \<Rightarrow>
               (Inr (u\<lparr>user_refreshToken := rt\<rparr>),
                d1\<lparr>users := map (\<lambda>v. if user_id v = i then v\<lparr>user_refreshToken := rt\<rparr> else v)
                                (users d1)\<rparr>)))"

text \<open>
  \<open>prisma.session.create({ data })\<close>; \<open>jti\<close> is \<open>@unique\<close>, and \<open>userId\<close>
  references the User table.
\<close>

definition prisma_session_create ::
  "nat \<Rightarrow> store \<Rightarrow> int \<Rightarrow> string \<Rightarrow> token \<Rightarrow> string \<Rightarrow> string \<Rightarrow> session result" where
  "prisma_session_create now d uid j rt ua addr =
     (case store_call d of
        None \<Rightarrow> (Inl (PrismaError Unavailable), d)
      | Some d1 \<Rightarrow>
          (case find (\<lambda>s. session_jti s = j) (sessions d1) of
             Some s \<Rightarrow> (Inl (PrismaError UniqueConstraintViolation), d1)
           | None \<Rightarrow>
               (case find (\<lambda>u. user_id u = uid) (users d1) of
                  None \<Rightarrow> (Inl (PrismaError ForeignKeyViolation), d1)
                | Some u \<Rightarrow>
                    (let s = \<lparr>session_id = session_seq d1, session_userId = uid, session_jti = j,
                               session_userAgent = ua, session_ip = addr, session_refreshToken = rt,
                               session_createdAt = now, session_updatedAt = now\<rparr>
                     in (Inr s, d1\<lparr>sessions := sessions d1 @ [s],
                                   session_seq := session_seq d1 + 1\<rparr>)))))"

text \<open>
  \<open>prisma.session.findFirst({ where: { jti } })\<close>. The filter value is \<open>payload.jti\<close>,
  which is \<open>undefined\<close> for a token signed without one; Prisma reads an undefined filter
  value as no condition on that column, and \<open>findFirst\<close> then returns the first row.
\<close>

definition prisma_session_findFirst_jti :: "store \<Rightarrow> string option \<Rightarrow> session option result" where
  "prisma_session_findFirst_jti d j =
     (case store_call d of
        None \<Rightarrow> (Inl (PrismaError Unavailable), d)
      | Some d1 \<Rightarrow>
          (Inr (case j of
                  None \<Rightarrow> find (\<lambda>s. True) (sessions d1)
                | Some v \<Rightarrow> find (\<lambda>s. session_jti s = v) (sessions d1)), d1))"

text \<open>\<open>prisma.session.findUnique({ where: { id } })\<close>.\<close>

definition prisma_session_findUnique_id :: "store \<Rightarrow> int \<Rightarrow> session option result" where
  "prisma_session_findUnique_id d i =
     (case store_call d of
        None \<Rightarrow> (Inl (PrismaError Unavailable), d)
      | Some d1 \<Rightarrow> (Inr (find (\<lambda>s. session_id s = i) (sessions d1)), d1))"

text \<open>
  \<open>prisma.session.findMany({ where: { userId }, select: { id, userAgent, ip, createdAt,
  updatedAt } })\<close>: the selected columns of the user's rows.
\<close>

record session_view =
  view_id :: int
  view_userAgent :: string
  view_ip :: string
  view_createdAt :: nat
  view_updatedAt :: nat

definition select_view :: "session \<Rightarrow> session_view" where
  "select_view s =
     \<lparr>view_id = session_id s, view_userAgent = session_userAgent s, view_ip = session_ip s,
      view_createdAt = session_createdAt s, view_updatedAt = session_updatedAt s\<rparr>"

definition prisma_session_findMany_userId :: "store \<Rightarrow> int \<Rightarrow> session_view list result" where
  "prisma_session_findMany_userId d uid =
     (case store_call d of
        None \<Rightarrow> (Inl (PrismaError Unavailable), d)
      | Some d1 \<Rightarrow> (Inr (map select_view (filter (\<lambda>s. session_userId s = uid) (sessions d1))), d1))"

text \<open>\<open>prisma.session.delete({ where: { id } })\<close>: throws when there is no such row.\<close>

definition prisma_session_delete :: "store \<Rightarrow> int \<Rightarrow> session result" where
  "prisma_session_delete d i =
     (case store_call d of
        None \<Rightarrow> (Inl (PrismaError Unavailable), d)
      | Some d1 \<Rightarrow>
          (case find (\<lambda>s. session_id s = i) (sessions d1) of
             None \<Rightarrow> (Inl (PrismaError RecordNotFound), d1)
           | Some s \<Rightarrow> (Inr s, d1\<lparr>sessions := filter (\<lambda>r. session_id r \<noteq> i) (sessions d1)\<rparr>)))"

text \<open>\<open>prisma.session.deleteMany({ where: { userId } })\<close> returns the number of rows deleted.\<close>

definition prisma_session_deleteMany_userId :: "store \<Rightarrow> int \<Rightarrow> nat result" where
  "prisma_session_deleteMany_userId d uid =
     (case store_call d of
        None \<Rightarrow> (Inl (PrismaError Unavailable), d)
      | Some d1 \<Rightarrow>
          (Inr (length (filter (\<lambda>s. session_userId s = uid) (sessions d1))),
           d1\<lparr>sessions := filter (\<lambda>s. session_userId s \<noteq> uid) (sessions d1)\<rparr>))"

section \<open>UsersService (src/users/users.service.ts)\<close>

definition create :: "nat \<Rightarrow> store \<Rightarrow> string \<Rightarrow> string bcrypt \<Rightarrow> string \<Rightarrow> user result" where
  "create now d em pw nm = prisma_user_create now d em pw nm"

definition findByEmail :: "store \<Rightarrow> string \<Rightarrow> user option result" where
  "findByEmail d em = prisma_user_findUnique_email d em"

definition findById :: "store \<Rightarrow> int \<Rightarrow> user option result" where
  "findById d i = prisma_user_findUnique_id d i"

definition updateRefreshToken :: "store \<Rightarrow> int \<Rightarrow> token bcrypt option \<Rightarrow> user result" where
  "updateRefreshToken d userId rt = prisma_user_update_refreshToken d userId rt"

section \<open>AuthService (src/auth/auth.service.ts)\<close>

text \<open>The messages of the exceptions and replies; \<open>CHR 0xE1\<close> and \<open>CHR 0xF3\<close> are the
  accented letters a and o.\<close>

definition msg_credenciales_invalidas :: string where
  "msg_credenciales_invalidas = ''Credenciales inv'' @ [CHR 0xE1] @ ''lidas''"

definition msg_sesion_cerrada :: string where
  "msg_sesion_cerrada = ''Sesi'' @ [CHR 0xF3] @ ''n cerrada correctamente''"

definition msg_usuario_no_encontrado :: string where
  "msg_usuario_no_encontrado = ''Usuario no encontrado''"

definition msg_sesion_invalida :: string where
  "msg_sesion_invalida = ''Sesi'' @ [CHR 0xF3] @ ''n inv'' @ [CHR 0xE1] @ ''lida''"

definition msg_token_invalido :: string where
  "msg_token_invalido = ''Token inv'' @ [CHR 0xE1] @ ''lido''"

definition validateUser :: "store \<Rightarrow> string \<Rightarrow> string \<Rightarrow> user result" where
  "validateUser d em password =
     (case findByEmail d em of
        (Inl e, d1) \<Rightarrow> (Inl e, d1)
      | (Inr None, d1) \<Rightarrow> (Inl (UnauthorizedException msg_credenciales_invalidas), d1)
      | (Inr (Some u), d1) \<Rightarrow>
          (if \<not> bcrypt_compare password (user_password u)
           then (Inl (UnauthorizedException msg_credenciales_invalidas), d1)
           else (Inr u, d1)))"

text \<open>
  The part of the Express request that \<open>login\<close> reads: the \<open>user-agent\<close> header,
  \<open>req.ip\<close> and \<open>req.connection.remoteAddress\<close>. \<open>x || y\<close> takes \<open>y\<close> when \<open>x\<close> is
  undefined or the empty string.
\<close>

record request =
  header_user_agent :: "string option"
  req_ip :: "string option"
  connection_remoteAddress :: "string option"

fun js_or :: "string option \<Rightarrow> string \<Rightarrow> string" where
  "js_or None y = y"
| "js_or (Some x) y = (if x = [] then y else x)"

text \<open>
  \<open>login(user, req)\<close>. \<open>uuid\<close> is the value of \<open>randomUUID()\<close>. The result is the pair
  \<open>{ accessToken, refreshToken }\<close>, in that order.
\<close>

definition login :: "config \<Rightarrow> nat \<Rightarrow> string \<Rightarrow> store \<Rightarrow> user \<Rightarrow> request \<Rightarrow> (token \<times> token) result" where
  "login cfg now uuid d u req =
     (let refresh = jwt_sign now (user_id u) None (Some uuid) (JWT_REFRESH_SECRET cfg) expiresIn_7d;
          access = jwt_sign now (user_id u) None None (JWT_SECRET cfg) expiresIn_15m;
          userAgent = js_or (header_user_agent req) ''unknown'';
          ip = js_or (req_ip req) (js_or (connection_remoteAddress req) ''unknown'')
      in case prisma_session_create now d (user_id u) uuid refresh userAgent ip of
           (Inl e, d1) \<Rightarrow> (Inl e, d1)
         | (Inr s, d1) \<Rightarrow> (Inr (access, refresh), d1))"

text \<open>\<open>generateTokens(userId, email)\<close>: both tokens carry \<open>{ sub, email }\<close>.\<close>

definition generateTokens :: "config \<Rightarrow> nat \<Rightarrow> int \<Rightarrow> string \<Rightarrow> token \<times> token" where
  "generateTokens cfg now userId em =
     (let access = jwt_sign now userId (Some em) None (JWT_SECRET cfg) expiresIn_15m;
          refresh = jwt_sign now userId (Some em) None (JWT_REFRESH_SECRET cfg) expiresIn_7d
      in (access, refresh))"

record public_user =
  public_id :: int
  public_email :: string
  public_name :: string

record register_result =
  access_token :: token
  refresh_token :: token
  result_user :: public_user

definition register :: "config \<Rightarrow> nat \<Rightarrow> store \<Rightarrow> string \<Rightarrow> string \<Rightarrow> string \<Rightarrow> register_result result" where
  "register cfg now d em password nm =
     (let hashedPassword = bcrypt_hash password
      in case create now d em hashedPassword nm of
           (Inl e, d1) \<Rightarrow> (Inl e, d1)
         | (Inr newUser, d1) \<Rightarrow>
             (let tokens = generateTokens cfg now (user_id newUser) (user_email newUser);
                  hashedRefreshToken = bcrypt_hash (snd tokens)
              in case updateRefreshToken d1 (user_id newUser) (Some hashedRefreshToken) of
                   (Inl e, d2) \<Rightarrow> (Inl e, d2)
                 | (Inr v, d2) \<Rightarrow>
                     (Inr \<lparr>access_token = fst tokens, refresh_token = snd tokens,
                           result_user = \<lparr>public_id = user_id newUser,
                                          public_email = user_email newUser,
                                          public_name = user_name newUser\<rparr>\<rparr>, d2)))"

definition logout :: "store \<Rightarrow> int \<Rightarrow> string result" where
  "logout d userId =
     (case updateRefreshToken d userId None of
        (Inl e, d1) \<Rightarrow> (Inl e, d1)
      | (Inr v, d1) \<Rightarrow> (Inr msg_sesion_cerrada, d1))"

definition getProfile :: "store \<Rightarrow> int \<Rightarrow> public_user result" where
  "getProfile d userId =
     (case findById d userId of
        (Inl e, d1) \<Rightarrow> (Inl e, d1)
      | (Inr None, d1) \<Rightarrow> (Inl (UnauthorizedException msg_usuario_no_encontrado), d1)
      | (Inr (Some u), d1) \<Rightarrow>
          (Inr \<lparr>public_id = user_id u, public_email = user_email u, public_name = user_name u\<rparr>, d1))"

text \<open>The body of the \<open>try\<close> block of \<open>refreshToken\<close>.\<close>

definition refreshToken_try :: "config \<Rightarrow> nat \<Rightarrow> store \<Rightarrow> token \<Rightarrow> (token \<times> token) result" where
  "refreshToken_try cfg now d tok =
     (case jwt_verify now tok (JWT_REFRESH_SECRET cfg) of
        Inl e \<Rightarrow> (Inl e, d)
      | Inr payload \<Rightarrow>
          (case findById d (sub payload) of
             (Inl e, d1) \<Rightarrow> (Inl e, d1)
           | (Inr None, d1) \<Rightarrow> (Inl (UnauthorizedException msg_usuario_no_encontrado), d1)
           | (Inr (Some u), d1) \<Rightarrow>
               (case prisma_session_findFirst_jti d1 (jti payload) of
                  (Inl e, d2) \<Rightarrow> (Inl e, d2)
                | (Inr None, d2) \<Rightarrow> (Inl (UnauthorizedException msg_sesion_invalida), d2)
                | (Inr (Some s), d2) \<Rightarrow>
                    (let access = jwt_sign now (user_id u) None None (JWT_SECRET cfg) expiresIn_15m;
                         refresh = jwt_sign now (user_id u) None (Some (session_jti s))
                                     (JWT_REFRESH_SECRET cfg) expiresIn_7d
                     in (Inr (access, refresh), d2)))))"

text \<open>\<open>refreshToken(token)\<close>: whatever the \<open>try\<close> block throws is caught and replaced.\<close>

definition refreshToken :: "config \<Rightarrow> nat \<Rightarrow> store \<Rightarrow> token \<Rightarrow> (token \<times> token) result" where
  "refreshToken cfg now d tok =
     (case refreshToken_try cfg now d tok of
        (Inl e, d1) \<Rightarrow> (Inl (UnauthorizedException msg_token_invalido), d1)
      | (Inr r, d1) \<Rightarrow> (Inr r, d1))"

section \<open>AuthController\<close>

text \<open>
  The controller with the cookie and session routes; its text follows \<open>RedisCacheModule\<close>
  in src/cache/cache.module.ts. The routes behind \<open>JwtAuthGuard\<close> read \<open>req.user.sub\<close>,
  the subject of the access token the guard has verified; the model takes it as the argument
  \<open>userId\<close>.
\<close>

definition msg_no_autorizado :: string where
  "msg_no_autorizado = ''No autorizado para eliminar esta sesi'' @ [CHR 0xF3] @ ''n''"

definition msg_sesion_revocada :: string where
  "msg_sesion_revocada = ''Sesi'' @ [CHR 0xF3] @ ''n revocada correctamente''"

definition msg_todas_cerradas :: string where
  "msg_todas_cerradas = ''Todas las sesiones cerradas''"

definition msg_no_hay_refresh_token :: string where
  "msg_no_hay_refresh_token = ''No hay refresh token''"

text \<open>
  \<open>POST /auth/login\<close>: the access token goes into the body and the refresh token into the
  cookie; the result is the pair (body, cookie).
\<close>

definition controller_login ::
  "config \<Rightarrow> nat \<Rightarrow> string \<Rightarrow> store \<Rightarrow> string \<Rightarrow> string \<Rightarrow> request \<Rightarrow> (token \<times> token) result" where
  "controller_login cfg now uuid d em password req =
     (case validateUser d em password of
        (Inl e, d1) \<Rightarrow> (Inl e, d1)
      | (Inr u, d1) \<Rightarrow> login cfg now uuid d1 u req)"

text \<open>\<open>POST /auth/refresh\<close>: the token is the cookie \<open>refresh_token\<close>, if there is one.\<close>

definition controller_refresh :: "config \<Rightarrow> nat \<Rightarrow> store \<Rightarrow> token option \<Rightarrow> (token \<times> token) result" where
  "controller_refresh cfg now d cookie =
     (case cookie of
        None \<Rightarrow> (Inl (UnauthorizedException msg_no_hay_refresh_token), d)
      | Some tok \<Rightarrow>
          (if tok = Malformed [] then (Inl (UnauthorizedException msg_no_hay_refresh_token), d)
           else refreshToken cfg now d tok))"

definition getSessions :: "store \<Rightarrow> int \<Rightarrow> session_view list result" where
  "getSessions d userId = prisma_session_findMany_userId d userId"

definition revokeSession :: "store \<Rightarrow> int \<Rightarrow> int \<Rightarrow> string result" where
  "revokeSession d sessionId userId =
     (case prisma_session_findUnique_id d sessionId of
        (Inl e, d1) \<Rightarrow> (Inl e, d1)
      | (Inr None, d1) \<Rightarrow> (Inl (ForbiddenException msg_no_autorizado), d1)
      | (Inr (Some s), d1) \<Rightarrow>
          (if session_userId s \<noteq> userId then (Inl (ForbiddenException msg_no_autorizado), d1)
           else (case prisma_session_delete d1 sessionId of
                   (Inl e, d2) \<Rightarrow> (Inl e, d2)
                 | (Inr v, d2) \<Rightarrow> (Inr msg_sesion_revocada, d2))))"

definition logoutAll :: "store \<Rightarrow> int \<Rightarrow> string result" where
  "logoutAll d userId =
     (case prisma_session_deleteMany_userId d userId of
        (Inl e, d1) \<Rightarrow> (Inl e, d1)
      | (Inr n, d1) \<Rightarrow> (Inr msg_todas_cerradas, d1))"

section \<open>Example data\<close>

text \<open>
  Two registered users, Alice and Bob, and the store after each has logged in once at time
  1000 from the same browser.
\<close>

definition cfg0 :: config where
  "cfg0 = \<lparr>JWT_SECRET = ''access-secret'', JWT_REFRESH_SECRET = ''refresh-secret''\<rparr>"

definition alice :: user where
  "alice = \<lparr>user_id = 1, user_email = ''a@x.com'', user_password = Bcrypt ''pw1'',
            user_name = ''A'', user_createdAt = 0, user_refreshToken = None\<rparr>"

definition bob :: user where
  "bob = \<lparr>user_id = 2, user_email = ''b@x.com'', user_password = Bcrypt ''pw2'',
          user_name = ''B'', user_createdAt = 0, user_refreshToken = None\<rparr>"

definition firefox :: request where
  "firefox = \<lparr>header_user_agent = Some ''Firefox'', req_ip = Some ''10.0.0.1'',
              connection_remoteAddress = None\<rparr>"

definition alice_claims :: claims where
  "alice_claims = \<lparr>sub = 1, email = None, jti = Some ''jti-a'', iat = 1000, exp = 605800\<rparr>"

definition alice_access :: token where
  "alice_access =
     Jwt ''access-secret'' \<lparr>sub = 1, email = None, jti = None, iat = 1000, exp = 1900\<rparr>"

definition alice_refresh :: token where
  "alice_refresh = Jwt ''refresh-secret'' alice_claims"

definition bob_refresh :: token where
  "bob_refresh =
     Jwt ''refresh-secret'' \<lparr>sub = 2, email = None, jti = Some ''jti-b'', iat = 1000, exp = 605800\<rparr>"

text \<open>The pair that a refresh of Alice's token at time 2000 returns.\<close>

definition alice_access2 :: token where
  "alice_access2 =
     Jwt ''access-secret'' \<lparr>sub = 1, email = None, jti = None, iat = 2000, exp = 2900\<rparr>"

definition alice_refresh2 :: token where
  "alice_refresh2 =
     Jwt ''refresh-secret'' \<lparr>sub = 1, email = None, jti = Some ''jti-a'', iat = 2000, exp = 606800\<rparr>"

definition alice_session :: session where
  "alice_session = \<lparr>session_id = 1, session_userId = 1, session_jti = ''jti-a'',
     session_userAgent = ''Firefox'', session_ip = ''10.0.0.1'', session_refreshToken = alice_refresh,
     session_createdAt = 1000, session_updatedAt = 1000\<rparr>"

definition bob_session :: session where
  "bob_session = \<lparr>session_id = 2, session_userId = 2, session_jti = ''jti-b'',
     session_userAgent = ''Firefox'', session_ip = ''10.0.0.1'', session_refreshToken = bob_refresh,
     session_createdAt = 1000, session_updatedAt = 1000\<rparr>"

definition two_users :: store where
  "two_users = \<lparr>users = [alice, bob], sessions = [], user_seq = 3, session_seq = 1, outage = None\<rparr>"

definition logged_in :: store where
  "logged_in = \<lparr>users = [alice, bob], sessions = [alice_session, bob_session],
                user_seq = 3, session_seq = 3, outage = None\<rparr>"

text \<open>The same sessions, with Alice's user row gone.\<close>

definition orphaned :: store where
  "orphaned = \<lparr>users = [bob], sessions = [alice_session, bob_session],
               user_seq = 3, session_seq = 3, outage = None\<rparr>"

text \<open>
  Carol registers at time 1500 on the store with the two sessions. \<open>carol_access\<close> and
  \<open>carol_refresh\<close> are the tokens that \<open>register\<close> returns to her, and
  \<open>after_register\<close> is the store it leaves.
\<close>

definition carol_access :: token where
  "carol_access =
     Jwt ''access-secret''
       \<lparr>sub = 3, email = Some ''c@x.com'', jti = None, iat = 1500, exp = 2400\<rparr>"

definition carol_refresh :: token where
  "carol_refresh =
     Jwt ''refresh-secret''
       \<lparr>sub = 3, email = Some ''c@x.com'', jti = None, iat = 1500, exp = 606300\<rparr>"

definition after_register :: store where
  "after_register = snd (register cfg0 1500 logged_in ''c@x.com'' ''pw3'' ''C'')"

section \<open>Auxiliary facts\<close>

lemmas prisma_defs =
  prisma_user_create_def prisma_user_findUnique_email_def prisma_user_findUnique_id_def
  prisma_user_update_refreshToken_def prisma_session_create_def prisma_session_findFirst_jti_def
  prisma_session_findUnique_id_def prisma_session_findMany_userId_def prisma_session_delete_def
  prisma_session_deleteMany_userId_def

lemmas users_defs = create_def findByEmail_def findById_def updateRefreshToken_def

lemmas service_defs =
  validateUser_def login_def generateTokens_def register_def logout_def getProfile_def
  refreshToken_try_def refreshToken_def getSessions_def revokeSession_def logoutAll_def
  jwt_sign_def expiresIn_15m_def expiresIn_7d_def bcrypt_hash_def Let_def

lemmas example_defs =
  cfg0_def alice_def bob_def firefox_def alice_claims_def alice_access_def alice_refresh_def
  bob_refresh_def alice_access2_def alice_refresh2_def alice_session_def bob_session_def
  two_users_def logged_in_def orphaned_def empty_store_def

text \<open>
  An operation makes at most two calls to the database, so four states of the connection
  cover every run: healthy, down, failing at the second call, failing later.
\<close>

lemma outage_cases [case_names healthy down one more]:
  obtains "outage d = None" | "outage d = Some 0" | "outage d = Some (Suc 0)"
  | n where "outage d = Some (Suc (Suc n))"
proof (cases "outage d")
  case None
  then show ?thesis using that by simp
next
  case (Some k)
  then show ?thesis using that by (cases k rule: nat.exhaust; cases "k - 1") auto
qed

lemma store_call_healthy: "outage d = None \<Longrightarrow> store_call d = Some d"
  by (simp add: store_call_def)

lemma heal: "outage d = None \<Longrightarrow> d\<lparr>outage := None\<rparr> = d"
  by (cases d) simp

lemma find_SomeD: "find P xs = Some x \<Longrightarrow> x \<in> set xs \<and> P x"
  by (induction xs) (auto split: if_splits)

lemma find_snoc:
  "find P (xs @ [x]) = (case find P xs of Some y \<Rightarrow> Some y | None \<Rightarrow> if P x then Some x else None)"
  by (induction xs) auto

lemma find_user_id_map:
  "find (\<lambda>u. user_id u = i) (map (\<lambda>v. if user_id v = uid then v\<lparr>user_refreshToken := x\<rparr> else v) us) =
   map_option (\<lambda>v. if user_id v = uid then v\<lparr>user_refreshToken := x\<rparr> else v)
     (find (\<lambda>u. user_id u = i) us)"
  by (induction us) auto

lemma jwt_verify_sign:
  "jwt_verify t (jwt_sign T s e j k n) k' =
     (if k \<noteq> k' then Inl TokenInvalid else if T + n < t then Inl TokenExpired
      else Inr \<lparr>sub = s, email = e, jti = j, iat = T, exp = T + n\<rparr>)"
  by (simp add: jwt_sign_def)

subsection \<open>What \<open>refreshToken\<close> returns\<close>

lemma refreshToken_fst:
  "fst (refreshToken cfg now d tok) =
     (case fst (refreshToken_try cfg now d tok) of
        Inl e \<Rightarrow> Inl (UnauthorizedException msg_token_invalido) | Inr r \<Rightarrow> Inr r)"
  by (simp add: refreshToken_def split: prod.splits sum.splits)


lemma refreshToken_rejects:
  "jwt_verify t tok (JWT_REFRESH_SECRET cfg) = Inl e \<Longrightarrow>
   fst (refreshToken cfg t d tok) = Inl (UnauthorizedException msg_token_invalido)"
  by (simp add: refreshToken_fst refreshToken_try_def)

lemma refreshToken_try_tokens:
  assumes "fst (refreshToken_try cfg T d tok) = Inr (a, r)"
  shows "\<exists>c s. jwt_verify T tok (JWT_REFRESH_SECRET cfg) = Inr c
           \<and> find (\<lambda>u. user_id u = sub c) (users d) \<noteq> None
           \<and> (case jti c of None \<Rightarrow> find (\<lambda>s. True) (sessions d)
                | Some j \<Rightarrow> find (\<lambda>s. session_jti s = j) (sessions d)) = Some s
           \<and> a = jwt_sign T (sub c) None None (JWT_SECRET cfg) expiresIn_15m
           \<and> r = jwt_sign T (sub c) None (Some (session_jti s)) (JWT_REFRESH_SECRET cfg) expiresIn_7d"
proof (cases "jwt_verify T tok (JWT_REFRESH_SECRET cfg)")
  case (Inl e)
  with assms show ?thesis by (simp add: refreshToken_try_def)
next
  case (Inr c)
  with assms show ?thesis
    by (cases d rule: outage_cases)
       (auto simp add: refreshToken_try_def users_defs prisma_defs store_call_def Let_def
         find_Some_iff split: option.splits)
qed


lemma refreshToken_needs_session:
  assumes "jti c = Some j" and "fst (refreshToken cfg now d (Jwt k c)) = Inr p"
  shows "find (\<lambda>s. session_jti s = j) (sessions d) \<noteq> None"
proof -
  obtain a r where "p = (a, r)" by (cases p)
  with assms(2) have "fst (refreshToken_try cfg now d (Jwt k c)) = Inr (a, r)"
    by (simp add: refreshToken_fst split: sum.splits)
  from refreshToken_try_tokens [OF this] assms(1) show ?thesis
    by (auto split: if_splits)
qed

lemma refreshToken_no_session:
  assumes "jti c = Some j" and "find (\<lambda>s. session_jti s = j) (sessions d) = None"
  shows "fst (refreshToken cfg now d (Jwt k c)) = Inl (UnauthorizedException msg_token_invalido)"
proof (cases "fst (refreshToken cfg now d (Jwt k c))")
  case (Inl e)
  then show ?thesis by (simp add: refreshToken_fst split: sum.splits)
next
  case (Inr p)
  with assms refreshToken_needs_session [OF assms(1) Inr] show ?thesis by simp
qed

lemma refreshToken_try_users_update:
  assumes "outage d = None"
  shows "fst (refreshToken_try cfg now
          (d\<lparr>users := map (\<lambda>v. if user_id v = uid then v\<lparr>user_refreshToken := x\<rparr> else v) (users d)\<rparr>) tok) =
   fst (refreshToken_try cfg now d tok)"
  using assms
  by (simp add: refreshToken_try_def users_defs prisma_defs store_call_def find_user_id_map Let_def
      split: option.splits sum.splits)

subsection \<open>What the other operations do to the store\<close>

lemma login_tokens:
  assumes "fst (login cfg T uuid d u req) = Inr (a, r)"
  shows "a = jwt_sign T (user_id u) None None (JWT_SECRET cfg) expiresIn_15m \<and>
         r = jwt_sign T (user_id u) None (Some uuid) (JWT_REFRESH_SECRET cfg) expiresIn_7d"
  using assms
  by (cases d rule: outage_cases)
     (simp_all add: login_def prisma_defs store_call_def Let_def split: option.splits)

lemma logoutAll_sessions:
  assumes "fst (logoutAll d uid) = Inr m"
  shows "sessions (snd (logoutAll d uid)) = filter (\<lambda>s. session_userId s \<noteq> uid) (sessions d)"
  using assms
  by (cases d rule: outage_cases) (simp_all add: logoutAll_def prisma_defs store_call_def)

lemma revokeSession_sessions:
  assumes "fst (revokeSession d sid uid) = Inr m"
  shows "sessions (snd (revokeSession d sid uid)) = filter (\<lambda>s. session_id s \<noteq> sid) (sessions d)"
  using assms
  by (cases d rule: outage_cases)
     (simp_all add: revokeSession_def prisma_defs store_call_def split: option.splits if_splits)

lemma revokeSession_healthy:
  assumes "outage d = None"
  shows "revokeSession d sid uid =
     (case find (\<lambda>s. session_id s = sid) (sessions d) of
        None \<Rightarrow> (Inl (ForbiddenException msg_no_autorizado), d)
      | Some s \<Rightarrow>
          (if session_userId s \<noteq> uid then (Inl (ForbiddenException msg_no_autorizado), d)
           else (Inr msg_sesion_revocada,
                 d\<lparr>sessions := filter (\<lambda>r. session_id r \<noteq> sid) (sessions d)\<rparr>)))"
  using assms
  by (simp add: revokeSession_def prisma_defs store_call_healthy split: option.splits)

lemma logout_store:
  assumes "outage d = None"
  shows "snd (logout d uid) =
           d\<lparr>users := map (\<lambda>v. if user_id v = uid then v\<lparr>user_refreshToken := None\<rparr> else v) (users d)\<rparr>"
proof (cases "find (\<lambda>u. user_id u = uid) (users d)")
  case None
  then have "map (\<lambda>v. if user_id v = uid then v\<lparr>user_refreshToken := None\<rparr> else v) (users d) = users d"
    by (auto simp: find_None_iff intro: map_idI)
  with None assms show ?thesis
    by (simp add: logout_def users_defs prisma_defs store_call_healthy)
next
  case (Some u)
  with assms show ?thesis
    by (simp add: logout_def users_defs prisma_defs store_call_healthy)
qed

lemma register_duplicate:
  assumes "outage d = None" and "find (\<lambda>u. user_email u = em) (users d) = Some u"
  shows "register cfg now d em pw nm = (Inl (PrismaError UniqueConstraintViolation), d)"
  using assms by (simp add: register_def users_defs prisma_defs store_call_healthy)

lemma register_fresh:
  assumes "outage d = None" and "find (\<lambda>u. user_email u = em) (users d) = None"
  shows "fst (register cfg now d em pw nm) =
           Inr \<lparr>access_token = jwt_sign now (user_seq d) (Some em) None (JWT_SECRET cfg) expiresIn_15m,
                refresh_token = jwt_sign now (user_seq d) (Some em) None (JWT_REFRESH_SECRET cfg) expiresIn_7d,
                result_user = \<lparr>public_id = user_seq d, public_email = em, public_name = nm\<rparr>\<rparr>"
    and "sessions (snd (register cfg now d em pw nm)) = sessions d"
    and "users (snd (register cfg now d em pw nm)) =
           map (\<lambda>v. if user_id v = user_seq d
                     then v\<lparr>user_refreshToken := Some (bcrypt_hash
                            (jwt_sign now (user_seq d) (Some em) None (JWT_REFRESH_SECRET cfg) expiresIn_7d))\<rparr>
                     else v)
               (users d @ [\<lparr>user_id = user_seq d, user_email = em, user_password = bcrypt_hash pw,
                            user_name = nm, user_createdAt = now, user_refreshToken = None\<rparr>])"
  using assms
  by (simp_all add: register_def users_defs prisma_defs store_call_def generateTokens_def Let_def
        find_snoc split: option.splits)

subsection \<open>A failing database call shows as the storage error\<close>

lemma validateUser_fault:
  "fst (validateUser d em pw) = fst (validateUser (d\<lparr>outage := None\<rparr>) em pw)
   \<or> fst (validateUser d em pw) = Inl (PrismaError Unavailable)"
  by (cases d rule: outage_cases)
     (simp_all add: heal validateUser_def users_defs prisma_defs store_call_def split: option.splits)

lemma login_fault:
  "fst (login cfg now uuid d u req) = fst (login cfg now uuid (d\<lparr>outage := None\<rparr>) u req)
   \<or> fst (login cfg now uuid d u req) = Inl (PrismaError Unavailable)"
  by (cases d rule: outage_cases)
     (simp_all add: heal login_def prisma_defs store_call_def Let_def split: option.splits)

lemma register_fault:
  "fst (register cfg now d em pw nm) = fst (register cfg now (d\<lparr>outage := None\<rparr>) em pw nm)
   \<or> fst (register cfg now d em pw nm) = Inl (PrismaError Unavailable)"
  by (cases d rule: outage_cases)
     (simp_all add: heal register_def users_defs prisma_defs store_call_def Let_def
        split: option.splits)

lemma logout_fault:
  "fst (logout d uid) = fst (logout (d\<lparr>outage := None\<rparr>) uid)
   \<or> fst (logout d uid) = Inl (PrismaError Unavailable)"
  by (cases d rule: outage_cases)
     (simp_all add: heal logout_def users_defs prisma_defs store_call_def split: option.splits)

lemma getProfile_fault:
  "fst (getProfile d uid) = fst (getProfile (d\<lparr>outage := None\<rparr>) uid)
   \<or> fst (getProfile d uid) = Inl (PrismaError Unavailable)"
  by (cases d rule: outage_cases)
     (simp_all add: heal getProfile_def users_defs prisma_defs store_call_def split: option.splits)

lemma getSessions_fault:
  "fst (getSessions d uid) = fst (getSessions (d\<lparr>outage := None\<rparr>) uid)
   \<or> fst (getSessions d uid) = Inl (PrismaError Unavailable)"
  by (cases d rule: outage_cases)
     (simp_all add: heal getSessions_def prisma_defs store_call_def)

lemma revokeSession_fault:
  "fst (revokeSession d sid uid) = fst (revokeSession (d\<lparr>outage := None\<rparr>) sid uid)
   \<or> fst (revokeSession d sid uid) = Inl (PrismaError Unavailable)"
  by (cases d rule: outage_cases)
     (simp_all add: heal revokeSession_def prisma_defs store_call_def split: option.splits)

lemma logoutAll_fault:
  "fst (logoutAll d uid) = fst (logoutAll (d\<lparr>outage := None\<rparr>) uid)
   \<or> fst (logoutAll d uid) = Inl (PrismaError Unavailable)"
  by (cases d rule: outage_cases)
     (simp_all add: heal logoutAll_def prisma_defs store_call_def)

text \<open>A call that fails ends the operation with the storage error.\<close>

lemma first_call_fails:
  assumes "outage d = Some 0"
  shows "fst (validateUser d em pw) = Inl (PrismaError Unavailable)"
    and "fst (login cfg now uuid d u req) = Inl (PrismaError Unavailable)"
    and "fst (register cfg now d em pw nm) = Inl (PrismaError Unavailable)"
    and "fst (logout d uid) = Inl (PrismaError Unavailable)"
    and "fst (getProfile d uid) = Inl (PrismaError Unavailable)"
    and "fst (getSessions d uid) = Inl (PrismaError Unavailable)"
    and "fst (revokeSession d sid uid) = Inl (PrismaError Unavailable)"
    and "fst (logoutAll d uid) = Inl (PrismaError Unavailable)"
  using assms
  by (simp_all add: validateUser_def login_def register_def logout_def getProfile_def
        getSessions_def revokeSession_def logoutAll_def users_defs prisma_defs store_call_def Let_def)

lemma register_second_call_fails:
  assumes "outage d = Some (Suc 0)" and "find (\<lambda>u. user_email u = em) (users d) = None"
  shows "fst (register cfg now d em pw nm) = Inl (PrismaError Unavailable)"
  using assms
  by (simp add: register_def users_defs prisma_defs store_call_def Let_def)

lemma revokeSession_second_call_fails:
  assumes "outage d = Some (Suc 0)" and "find (\<lambda>s. session_id s = sid) (sessions d) = Some s"
    and "session_userId s = uid"
  shows "fst (revokeSession d sid uid) = Inl (PrismaError Unavailable)"
  using assms
  by (simp add: revokeSession_def prisma_defs store_call_def)

lemma refreshToken_call_fails:
  assumes "jwt_verify now tok (JWT_REFRESH_SECRET cfg) = Inr c"
  shows "outage d = Some 0 \<Longrightarrow>
           fst (refreshToken_try cfg now d tok) = Inl (PrismaError Unavailable)"
    and "outage d = Some (Suc 0) \<Longrightarrow> find (\<lambda>u. user_id u = sub c) (users d) = Some u \<Longrightarrow>
           fst (refreshToken_try cfg now d tok) = Inl (PrismaError Unavailable)"
  using assms
  by (simp_all add: refreshToken_try_def users_defs prisma_defs store_call_def)

subsection \<open>The example data\<close>

text \<open>The store \<open>logged_in\<close> is what the two logins leave behind.\<close>

lemma login_alice:
  "login cfg0 1000 ''jti-a'' two_users alice firefox =
     (Inr (alice_access, alice_refresh),
      \<lparr>users = [alice, bob], sessions = [alice_session], user_seq = 3, session_seq = 2, outage = None\<rparr>)"
  by (simp add: example_defs service_defs prisma_defs store_call_def)

lemma logged_in_reachable:
  "snd (login cfg0 1000 ''jti-b'' (snd (login cfg0 1000 ''jti-a'' two_users alice firefox)) bob firefox)
     = logged_in"
  by (simp add: example_defs service_defs prisma_defs store_call_def)

lemma refresh_alice:
  "refreshToken cfg0 2000 logged_in alice_refresh = (Inr (alice_access2, alice_refresh2), logged_in)"
  by (simp add: example_defs service_defs users_defs prisma_defs store_call_def)

lemma logoutAll_alice:
  "logoutAll logged_in 1 = (Inr msg_todas_cerradas, logged_in\<lparr>sessions := [bob_session]\<rparr>)"
  by (simp add: example_defs service_defs prisma_defs store_call_def)

lemma revoke_alice:
  "revokeSession logged_in 1 1 = (Inr msg_sesion_revocada, logged_in\<lparr>sessions := [bob_session]\<rparr>)"
  by (simp add: example_defs service_defs prisma_defs store_call_def)

lemma sessions_logged_in: "sessions logged_in = [alice_session, bob_session]"
  by (simp add: logged_in_def)

lemma outage_logged_in: "outage logged_in = None"
  by (simp add: logged_in_def)

lemma session_fields:
  "session_id alice_session = 1" "session_userId alice_session = 1" "session_jti alice_session = ''jti-a''"
  "session_id bob_session = 2" "session_userId bob_session = 2" "session_jti bob_session = ''jti-b''"
  by (simp_all add: alice_session_def bob_session_def)

lemma register_carol:
  "fst (register cfg0 1500 logged_in ''c@x.com'' ''pw3'' ''C'') =
     Inr \<lparr>access_token = carol_access, refresh_token = carol_refresh,
          result_user = \<lparr>public_id = 3, public_email = ''c@x.com'', public_name = ''C''\<rparr>\<rparr>"
  by (simp add: carol_access_def carol_refresh_def example_defs service_defs users_defs prisma_defs
        store_call_def)

lemma after_register_eq:
  "after_register =
     \<lparr>users = [alice, bob,
                \<lparr>user_id = 3, user_email = ''c@x.com'', user_password = Bcrypt ''pw3'',
                   user_name = ''C'', user_createdAt = 1500,
                   user_refreshToken = Some (Bcrypt carol_refresh)\<rparr>],
       sessions = [alice_session, bob_session], user_seq = 4, session_seq = 3, outage = None\<rparr>"
  by (simp add: after_register_def carol_refresh_def example_defs service_defs users_defs prisma_defs
        store_call_def)

section \<open>Refresh\<close>




text \<open>
  For a refresh token that carries a \<open>jti\<close> the session check works: the token is
  accepted only if a Session with that \<open>jti\<close> is stored, and once \<open>logoutAll\<close> or
  \<open>revokeSession\<close> has deleted the session the refresh fails with Unauthorized.
\<close>

lemma refresh_with_jti_requires_live_session:
  assumes "jti c = Some j"
  shows "(fst (refreshToken cfg now d (Jwt k c)) = Inr p \<longrightarrow>
            (\<exists>s\<in>set (sessions d). session_jti s = j))
       \<and> ((\<forall>s\<in>set (sessions d). session_jti s \<noteq> j) \<longrightarrow>
            fst (refreshToken cfg now d (Jwt k c)) = Inl (UnauthorizedException msg_token_invalido))
       \<and> (fst (logoutAll d uid) = Inr m
            \<and> (\<forall>s\<in>set (sessions d). session_jti s = j \<longrightarrow> session_userId s = uid) \<longrightarrow>
            fst (refreshToken cfg now (snd (logoutAll d uid)) (Jwt k c)) =
              Inl (UnauthorizedException msg_token_invalido))
       \<and> (fst (revokeSession d sid uid) = Inr m'
            \<and> (\<forall>s\<in>set (sessions d). session_jti s = j \<longrightarrow> session_id s = sid) \<longrightarrow>
            fst (refreshToken cfg now (snd (revokeSession d sid uid)) (Jwt k c)) =
              Inl (UnauthorizedException msg_token_invalido))"
proof (intro conjI impI)
  assume "fst (refreshToken cfg now d (Jwt k c)) = Inr p"
  from refreshToken_needs_session [OF assms this]
  show "\<exists>s\<in>set (sessions d). session_jti s = j"
    by (auto simp: find_None_iff)
next
  assume "\<forall>s\<in>set (sessions d). session_jti s \<noteq> j"
  then have "find (\<lambda>s. session_jti s = j) (sessions d) = None"
    by (auto simp: find_None_iff)
  then show "fst (refreshToken cfg now d (Jwt k c)) = Inl (UnauthorizedException msg_token_invalido)"
    by (rule refreshToken_no_session [OF assms])
next
  assume h: "fst (logoutAll d uid) = Inr m \<and>
             (\<forall>s\<in>set (sessions d). session_jti s = j \<longrightarrow> session_userId s = uid)"
  then have "find (\<lambda>s. session_jti s = j) (sessions (snd (logoutAll d uid))) = None"
    by (auto simp: logoutAll_sessions find_None_iff)
  then show "fst (refreshToken cfg now (snd (logoutAll d uid)) (Jwt k c)) =
               Inl (UnauthorizedException msg_token_invalido)"
    by (rule refreshToken_no_session [OF assms])
next
  assume h: "fst (revokeSession d sid uid) = Inr m' \<and>
             (\<forall>s\<in>set (sessions d). session_jti s = j \<longrightarrow> session_id s = sid)"
  then have "find (\<lambda>s. session_jti s = j) (sessions (snd (revokeSession d sid uid))) = None"
    by (auto simp: revokeSession_sessions find_None_iff)
  then show "fst (refreshToken cfg now (snd (revokeSession d sid uid)) (Jwt k c)) =
               Inl (UnauthorizedException msg_token_invalido)"
    by (rule refreshToken_no_session [OF assms])
qed

text \<open>
  Claim C2: every refresh token is accepted only if its \<open>jti\<close> resolves to a stored
  Session with that \<open>jti\<close>. The code misses the token without a \<open>jti\<close>: \<open>register\<close>
  returns such a refresh token, signed with the refresh secret, and \<open>refreshToken\<close>
  passes its undefined \<open>jti\<close> to \<open>findFirst\<close> as the filter, which then matches the
  first session of whoever has one. Carol has no session; her token is accepted, also after
  her own \<open>logoutAll\<close>, and the token she gets back carries the \<open>jti\<close> of Alice's
  session, or of Bob's once Alice's sessions are gone.
\<close>

theorem refresh_accepts_token_without_jti:
  "fst (register cfg0 1500 logged_in ''c@x.com'' ''pw3'' ''C'') =
     Inr \<lparr>access_token = carol_access, refresh_token = carol_refresh,
          result_user = \<lparr>public_id = 3, public_email = ''c@x.com'', public_name = ''C''\<rparr>\<rparr>
   \<and> filter (\<lambda>s. session_userId s = 3) (sessions after_register) = []
   \<and> fst (refreshToken cfg0 2000 after_register carol_refresh) =
        Inr (Jwt ''access-secret'' \<lparr>sub = 3, email = None, jti = None, iat = 2000, exp = 2900\<rparr>,
             Jwt ''refresh-secret''
               \<lparr>sub = 3, email = None, jti = Some ''jti-a'', iat = 2000, exp = 606800\<rparr>)
   \<and> fst (logoutAll after_register 3) = Inr msg_todas_cerradas
   \<and> fst (refreshToken cfg0 2000 (snd (logoutAll after_register 3)) carol_refresh) =
        Inr (Jwt ''access-secret'' \<lparr>sub = 3, email = None, jti = None, iat = 2000, exp = 2900\<rparr>,
             Jwt ''refresh-secret''
               \<lparr>sub = 3, email = None, jti = Some ''jti-a'', iat = 2000, exp = 606800\<rparr>)
   \<and> fst (refreshToken cfg0 2000 (snd (logoutAll after_register 1)) carol_refresh) =
        Inr (Jwt ''access-secret'' \<lparr>sub = 3, email = None, jti = None, iat = 2000, exp = 2900\<rparr>,
             Jwt ''refresh-secret''
               \<lparr>sub = 3, email = None, jti = Some ''jti-b'', iat = 2000, exp = 606800\<rparr>)"
  by (simp add: register_carol after_register_eq)
     (simp add: carol_refresh_def example_defs service_defs users_defs prisma_defs store_call_def)

section \<open>Register\<close>

text \<open>
  Claim C3, as the specification states it: \<open>register\<close> ends with the token issuance of
  \<open>login\<close>, a refresh token with a fresh \<open>jti\<close> and a new Session. The code does not:
  registering on the empty store returns tokens without a \<open>jti\<close> and stores no session,
  where a login stores one.
\<close>

theorem register_session_counterexample:
  "fst (register cfg0 1000 empty_store ''a@x.com'' ''pw1'' ''A'') =
     Inr \<lparr>access_token = Jwt ''access-secret''
                           \<lparr>sub = 1, email = Some ''a@x.com'', jti = None, iat = 1000, exp = 1900\<rparr>,
          refresh_token = Jwt ''refresh-secret''
                           \<lparr>sub = 1, email = Some ''a@x.com'', jti = None, iat = 1000, exp = 605800\<rparr>,
          result_user = \<lparr>public_id = 1, public_email = ''a@x.com'', public_name = ''A''\<rparr>\<rparr>
   \<and> sessions (snd (register cfg0 1000 empty_store ''a@x.com'' ''pw1'' ''A'')) = []
   \<and> sessions (snd (login cfg0 1000 ''jti-a'' two_users alice firefox)) = [alice_session]"
  by (simp add: login_alice) (simp add: example_defs service_defs users_defs prisma_defs store_call_def)

text \<open>
  Claim C3, amended: on a store that answers, \<open>register\<close> with an email that a user
  already has fails with the unique-constraint error of the store and changes nothing.
  Otherwise it creates the user with the hashed password and returns the tokens of
  \<open>generateTokens\<close>, which carry the subject and the email and no \<open>jti\<close>, together with
  the id, email and name of the new user; it creates no Session, and it stores the hash of
  the refresh token in the new user's row.
\<close>

theorem register_issues_tokens_without_session:
  assumes "outage d = None"
  shows "(\<forall>u. find (\<lambda>u. user_email u = em) (users d) = Some u \<longrightarrow>
            register cfg now d em pw nm = (Inl (PrismaError UniqueConstraintViolation), d))
       \<and> (find (\<lambda>u. user_email u = em) (users d) = None \<longrightarrow>
            fst (register cfg now d em pw nm) =
              Inr \<lparr>access_token = jwt_sign now (user_seq d) (Some em) None (JWT_SECRET cfg) expiresIn_15m,
                   refresh_token = jwt_sign now (user_seq d) (Some em) None (JWT_REFRESH_SECRET cfg) expiresIn_7d,
                   result_user = \<lparr>public_id = user_seq d, public_email = em, public_name = nm\<rparr>\<rparr>
          \<and> sessions (snd (register cfg now d em pw nm)) = sessions d
          \<and> ((\<forall>u\<in>set (users d). user_id u \<noteq> user_seq d) \<longrightarrow>
               users (snd (register cfg now d em pw nm)) =
                 users d @ [\<lparr>user_id = user_seq d, user_email = em, user_password = bcrypt_hash pw,
                             user_name = nm, user_createdAt = now,
                             user_refreshToken = Some (bcrypt_hash
                               (jwt_sign now (user_seq d) (Some em) None (JWT_REFRESH_SECRET cfg)
                                  expiresIn_7d))\<rparr>]))"
proof (intro conjI allI impI)
  fix u assume "find (\<lambda>u. user_email u = em) (users d) = Some u"
  then show "register cfg now d em pw nm = (Inl (PrismaError UniqueConstraintViolation), d)"
    by (rule register_duplicate [OF assms])
next
  assume fresh: "find (\<lambda>u. user_email u = em) (users d) = None"
  show "fst (register cfg now d em pw nm) =
              Inr \<lparr>access_token = jwt_sign now (user_seq d) (Some em) None (JWT_SECRET cfg) expiresIn_15m,
                   refresh_token = jwt_sign now (user_seq d) (Some em) None (JWT_REFRESH_SECRET cfg) expiresIn_7d,
                   result_user = \<lparr>public_id = user_seq d, public_email = em, public_name = nm\<rparr>\<rparr>"
    by (rule register_fresh(1) [OF assms fresh])
  show "sessions (snd (register cfg now d em pw nm)) = sessions d"
    by (rule register_fresh(2) [OF assms fresh])
  assume ids: "\<forall>u\<in>set (users d). user_id u \<noteq> user_seq d"
  then have "map (\<lambda>v. if user_id v = user_seq d then v\<lparr>user_refreshToken := x\<rparr> else v) (users d) = users d"
    for x by (auto intro: map_idI)
  then show "users (snd (register cfg now d em pw nm)) =
                 users d @ [\<lparr>user_id = user_seq d, user_email = em, user_password = bcrypt_hash pw,
                             user_name = nm, user_createdAt = now,
                             user_refreshToken = Some (bcrypt_hash
                               (jwt_sign now (user_seq d) (Some em) None (JWT_REFRESH_SECRET cfg)
                                  expiresIn_7d))\<rparr>]"
    by (simp add: register_fresh(3) [OF assms fresh])
qed

text \<open>
  Claim C3, the amended statement on the empty store, and with Alice's email on the store
  that has her.
\<close>

theorem register_issues_tokens_without_session_witness:
  "outage empty_store = None
   \<and> fst (register cfg0 1000 empty_store ''a@x.com'' ''pw1'' ''A'') =
       Inr \<lparr>access_token = jwt_sign 1000 1 (Some ''a@x.com'') None (JWT_SECRET cfg0) expiresIn_15m,
            refresh_token = jwt_sign 1000 1 (Some ''a@x.com'') None (JWT_REFRESH_SECRET cfg0) expiresIn_7d,
            result_user = \<lparr>public_id = 1, public_email = ''a@x.com'', public_name = ''A''\<rparr>\<rparr>
   \<and> sessions (snd (register cfg0 1000 empty_store ''a@x.com'' ''pw1'' ''A'')) = []
   \<and> outage two_users = None
   \<and> find (\<lambda>u. user_email u = ''a@x.com'') (users two_users) = Some alice
   \<and> register cfg0 1000 two_users ''a@x.com'' ''pw9'' ''Z'' =
       (Inl (PrismaError UniqueConstraintViolation), two_users)"
proof -
  have e: "outage empty_store = None" "find (\<lambda>u. user_email u = ''a@x.com'') (users empty_store) = None"
    "user_seq empty_store = 1" "sessions empty_store = []"
    by (simp_all add: empty_store_def)
  have t: "outage two_users = None" "find (\<lambda>u. user_email u = ''a@x.com'') (users two_users) = Some alice"
    by (simp_all add: two_users_def alice_def)
  from register_issues_tokens_without_session [OF e(1), of "''a@x.com''" cfg0 1000 "''pw1''" "''A''"]
       register_issues_tokens_without_session [OF t(1), of "''a@x.com''" cfg0 1000 "''pw9''" "''Z''"]
  show ?thesis by (simp add: e t)
qed

section \<open>Storage failures\<close>

text \<open>
  Claim C4, as the specification states it: in every operation a failure of the storage
  collaborator surfaces as a storage error, never as an authentication failure. In
  \<open>refreshToken\<close> it does not: with the database down the user lookup fails with the
  storage error, and the refresh of Alice's valid token, which succeeds on the healthy store,
  is reported as Unauthorized.
\<close>

theorem refresh_storage_failure_counterexample:
  "fst (findById (logged_in\<lparr>outage := Some 0\<rparr>) 1) = Inl (PrismaError Unavailable)
   \<and> fst (refreshToken cfg0 2000 (logged_in\<lparr>outage := Some 0\<rparr>) alice_refresh) =
        Inl (UnauthorizedException msg_token_invalido)
   \<and> fst (refreshToken cfg0 2000 logged_in alice_refresh) = Inr (alice_access2, alice_refresh2)"
  by (simp add: refresh_alice) (simp add: example_defs service_defs users_defs prisma_defs store_call_def)

text \<open>
  Claim C4, amended: in \<open>validateUser\<close>, \<open>login\<close>, \<open>register\<close>, \<open>logout\<close>,
  \<open>getProfile\<close>, \<open>getSessions\<close>, \<open>revokeSession\<close> and \<open>logoutAll\<close> a storage
  call that fails ends the operation with the storage error: so it is when the first call
  fails, and when the second call fails in the two operations that make one, \<open>register\<close>
  after the user is created and \<open>revokeSession\<close> after the owner's session is found; and
  whatever the state of the connection, the outcome is the outcome on the healthy store or
  the storage error. In \<open>refreshToken\<close> a failed user lookup or session lookup raises the
  storage error inside the \<open>try\<close> block and is reported as Unauthorized, as every other
  failure of that operation is.
\<close>

theorem storage_failure_propagates_except_in_refresh:
  "(outage d = Some 0 \<longrightarrow>
       fst (validateUser d em pw) = Inl (PrismaError Unavailable)
     \<and> fst (login cfg now uuid d u req) = Inl (PrismaError Unavailable)
     \<and> fst (register cfg now d em pw nm) = Inl (PrismaError Unavailable)
     \<and> fst (logout d uid) = Inl (PrismaError Unavailable)
     \<and> fst (getProfile d uid) = Inl (PrismaError Unavailable)
     \<and> fst (getSessions d uid) = Inl (PrismaError Unavailable)
     \<and> fst (revokeSession d sid uid) = Inl (PrismaError Unavailable)
     \<and> fst (logoutAll d uid) = Inl (PrismaError Unavailable))
 \<and> (outage d = Some (Suc 0) \<and> find (\<lambda>u. user_email u = em) (users d) = None \<longrightarrow>
       fst (register cfg now d em pw nm) = Inl (PrismaError Unavailable))
 \<and> (\<forall>s. outage d = Some (Suc 0) \<and> find (\<lambda>s. session_id s = sid) (sessions d) = Some s
          \<and> session_userId s = uid \<longrightarrow>
       fst (revokeSession d sid uid) = Inl (PrismaError Unavailable))
 \<and> (\<forall>c. outage d = Some 0 \<and> jwt_verify now tok (JWT_REFRESH_SECRET cfg) = Inr c \<longrightarrow>
       fst (refreshToken_try cfg now d tok) = Inl (PrismaError Unavailable)
     \<and> fst (refreshToken cfg now d tok) = Inl (UnauthorizedException msg_token_invalido))
 \<and> (\<forall>c v. outage d = Some (Suc 0) \<and> jwt_verify now tok (JWT_REFRESH_SECRET cfg) = Inr c
            \<and> find (\<lambda>u. user_id u = sub c) (users d) = Some v \<longrightarrow>
       fst (refreshToken_try cfg now d tok) = Inl (PrismaError Unavailable)
     \<and> fst (refreshToken cfg now d tok) = Inl (UnauthorizedException msg_token_invalido))
 \<and> (\<forall>e. fst (refreshToken cfg now d tok) = Inl e \<longrightarrow> e = UnauthorizedException msg_token_invalido)
 \<and> (fst (validateUser d em pw) = fst (validateUser (d\<lparr>outage := None\<rparr>) em pw)
      \<or> fst (validateUser d em pw) = Inl (PrismaError Unavailable))
 \<and> (fst (login cfg now uuid d u req) = fst (login cfg now uuid (d\<lparr>outage := None\<rparr>) u req)
      \<or> fst (login cfg now uuid d u req) = Inl (PrismaError Unavailable))
 \<and> (fst (register cfg now d em pw nm) = fst (register cfg now (d\<lparr>outage := None\<rparr>) em pw nm)
      \<or> fst (register cfg now d em pw nm) = Inl (PrismaError Unavailable))
 \<and> (fst (logout d uid) = fst (logout (d\<lparr>outage := None\<rparr>) uid)
      \<or> fst (logout d uid) = Inl (PrismaError Unavailable))
 \<and> (fst (getProfile d uid) = fst (getProfile (d\<lparr>outage := None\<rparr>) uid)
      \<or> fst (getProfile d uid) = Inl (PrismaError Unavailable))
 \<and> (fst (getSessions d uid) = fst (getSessions (d\<lparr>outage := None\<rparr>) uid)
      \<or> fst (getSessions d uid) = Inl (PrismaError Unavailable))
 \<and> (fst (revokeSession d sid uid) = fst (revokeSession (d\<lparr>outage := None\<rparr>) sid uid)
      \<or> fst (revokeSession d sid uid) = Inl (PrismaError Unavailable))
 \<and> (fst (logoutAll d uid) = fst (logoutAll (d\<lparr>outage := None\<rparr>) uid)
      \<or> fst (logoutAll d uid) = Inl (PrismaError Unavailable))"
proof -
  have r1: "\<forall>c. outage d = Some 0 \<and> jwt_verify now tok (JWT_REFRESH_SECRET cfg) = Inr c \<longrightarrow>
       fst (refreshToken_try cfg now d tok) = Inl (PrismaError Unavailable)
     \<and> fst (refreshToken cfg now d tok) = Inl (UnauthorizedException msg_token_invalido)"
    using refreshToken_call_fails(1) [of now tok cfg _ d] by (simp add: refreshToken_fst)
  have r2: "\<forall>c v. outage d = Some (Suc 0) \<and> jwt_verify now tok (JWT_REFRESH_SECRET cfg) = Inr c
            \<and> find (\<lambda>u. user_id u = sub c) (users d) = Some v \<longrightarrow>
       fst (refreshToken_try cfg now d tok) = Inl (PrismaError Unavailable)
     \<and> fst (refreshToken cfg now d tok) = Inl (UnauthorizedException msg_token_invalido)"
    using refreshToken_call_fails(2) [of now tok cfg _ d] by (simp add: refreshToken_fst)
  have r3: "\<forall>e. fst (refreshToken cfg now d tok) = Inl e \<longrightarrow> e = UnauthorizedException msg_token_invalido"
    by (simp add: refreshToken_fst split: sum.splits)
  have f: "outage d = Some 0 \<longrightarrow>
       fst (validateUser d em pw) = Inl (PrismaError Unavailable)
     \<and> fst (login cfg now uuid d u req) = Inl (PrismaError Unavailable)
     \<and> fst (register cfg now d em pw nm) = Inl (PrismaError Unavailable)
     \<and> fst (logout d uid) = Inl (PrismaError Unavailable)
     \<and> fst (getProfile d uid) = Inl (PrismaError Unavailable)
     \<and> fst (getSessions d uid) = Inl (PrismaError Unavailable)
     \<and> fst (revokeSession d sid uid) = Inl (PrismaError Unavailable)
     \<and> fst (logoutAll d uid) = Inl (PrismaError Unavailable)"
    by (simp add: first_call_fails)
  have g: "outage d = Some (Suc 0) \<and> find (\<lambda>u. user_email u = em) (users d) = None \<longrightarrow>
       fst (register cfg now d em pw nm) = Inl (PrismaError Unavailable)"
    by (simp add: register_second_call_fails)
  have h: "\<forall>s. outage d = Some (Suc 0) \<and> find (\<lambda>s. session_id s = sid) (sessions d) = Some s
          \<and> session_userId s = uid \<longrightarrow>
       fst (revokeSession d sid uid) = Inl (PrismaError Unavailable)"
    by (simp add: revokeSession_second_call_fails)
  from f g h r1 r2 r3
    validateUser_fault [of d em pw] login_fault [of cfg now uuid d u req]
    register_fault [of cfg now d em pw nm] logout_fault [of d uid] getProfile_fault [of d uid]
    getSessions_fault [of d uid] revokeSession_fault [of d sid uid] logoutAll_fault [of d uid]
  show ?thesis by (intro conjI) assumption+
qed

text \<open>
  Claim C4, the amended statement with the database down, and with the database failing
  at the second call: Carol's registration after her row is created, Alice's revocation
  after her session is found, Alice's refresh at either lookup.
\<close>

theorem storage_failure_propagates_except_in_refresh_witness:
  "fst (validateUser (logged_in\<lparr>outage := Some 0\<rparr>) ''a@x.com'' ''pw1'') = Inl (PrismaError Unavailable)
   \<and> fst (validateUser logged_in ''a@x.com'' ''pw1'') = Inr alice
   \<and> fst (logoutAll (logged_in\<lparr>outage := Some 0\<rparr>) 1) = Inl (PrismaError Unavailable)
   \<and> fst (revokeSession (logged_in\<lparr>outage := Some 0\<rparr>) 1 1) = Inl (PrismaError Unavailable)
   \<and> fst (register cfg0 2000 (logged_in\<lparr>outage := Some (Suc 0)\<rparr>) ''c@x.com'' ''pw3'' ''C'') =
        Inl (PrismaError Unavailable)
   \<and> fst (revokeSession (logged_in\<lparr>outage := Some (Suc 0)\<rparr>) 1 1) = Inl (PrismaError Unavailable)
   \<and> fst (revokeSession logged_in 1 1) = Inr msg_sesion_revocada
   \<and> fst (refreshToken cfg0 2000 (logged_in\<lparr>outage := Some 0\<rparr>) alice_refresh) =
        Inl (UnauthorizedException msg_token_invalido)
   \<and> fst (refreshToken cfg0 2000 (logged_in\<lparr>outage := Some (Suc 0)\<rparr>) alice_refresh) =
        Inl (UnauthorizedException msg_token_invalido)
   \<and> fst (refreshToken cfg0 2000 logged_in alice_refresh) = Inr (alice_access2, alice_refresh2)"
proof -
  let ?d0 = "logged_in\<lparr>outage := Some 0\<rparr>" and ?d1 = "logged_in\<lparr>outage := Some (Suc 0)\<rparr>"
  have down: "outage ?d0 = Some 0" and one: "outage ?d1 = Some (Suc 0)"
    by simp_all
  have fresh: "find (\<lambda>u. user_email u = ''c@x.com'') (users ?d1) = None"
    by (simp add: logged_in_def alice_def bob_def)
  have own: "find (\<lambda>s. session_id s = 1) (sessions ?d1) = Some alice_session"
            "session_userId alice_session = 1"
    by (simp_all add: sessions_logged_in session_fields)
  have v: "jwt_verify 2000 alice_refresh (JWT_REFRESH_SECRET cfg0) = Inr alice_claims"
    by (simp add: alice_refresh_def alice_claims_def cfg0_def)
  have u: "find (\<lambda>u. user_id u = sub alice_claims) (users ?d1) = Some alice"
    by (simp add: logged_in_def alice_def alice_claims_def)
  have ok: "fst (validateUser logged_in ''a@x.com'' ''pw1'') = Inr alice"
    by (simp add: example_defs validateUser_def users_defs prisma_defs store_call_def)
  note at0 = storage_failure_propagates_except_in_refresh
         [where d = ?d0 and em = "''a@x.com''" and pw = "''pw1''" and uid = 1 and sid = 1
            and cfg = cfg0 and now = 2000 and tok = alice_refresh]
  note at1 = storage_failure_propagates_except_in_refresh
         [where d = ?d1 and em = "''c@x.com''" and pw = "''pw3''" and nm = "''C''" and uid = 1
            and sid = 1 and cfg = cfg0 and now = 2000 and tok = alice_refresh]
  note c1 = at0 [THEN conjunct1, THEN mp, OF down]
  note c2 = at1 [THEN conjunct2, THEN conjunct1, THEN mp, OF conjI [OF one fresh]]
  note c3 = at1 [THEN conjunct2, THEN conjunct2, THEN conjunct1, THEN spec, THEN mp,
                 OF conjI [OF one conjI [OF own]]]
  note c4 = at0 [THEN conjunct2, THEN conjunct2, THEN conjunct2, THEN conjunct1, THEN spec,
                 THEN mp, OF conjI [OF down v]]
  note c5 = at1 [THEN conjunct2, THEN conjunct2, THEN conjunct2, THEN conjunct2, THEN conjunct1,
                 THEN spec, THEN spec, THEN mp, OF conjI [OF one conjI [OF v u]]]
  from c1 c2 c3 c4 c5 show ?thesis
    by (simp add: ok revoke_alice refresh_alice)
qed

section \<open>Revoking sessions\<close>

text \<open>
  Claim C5, as the specification states it: revoking a session id that does not exist fails
  with NotFound. The code has one guard for both cases: on the store with sessions 1 and 2,
  revoking session 7 fails with Forbidden.
\<close>

theorem revoke_absent_session_counterexample:
  "find (\<lambda>s. session_id s = 7) (sessions logged_in) = None
   \<and> revokeSession logged_in 7 1 = (Inl (ForbiddenException msg_no_autorizado), logged_in)"
  by (simp add: example_defs service_defs prisma_defs store_call_def)

text \<open>
  Claim C5, amended: on a store that answers, \<open>revokeSession\<close> fails with Forbidden and
  leaves the store as it is when the session does not exist and when it belongs to another
  user; when the requester owns it, the call succeeds, deletes that row and no other, and
  leaves the users alone. The sessions change only when the requester owns the session.
\<close>

theorem revokeSession_forbidden_unless_owner:
  assumes "outage d = None"
  shows "(find (\<lambda>s. session_id s = sid) (sessions d) = None \<longrightarrow>
            revokeSession d sid uid = (Inl (ForbiddenException msg_no_autorizado), d))
       \<and> (\<forall>s. find (\<lambda>s. session_id s = sid) (sessions d) = Some s \<and> session_userId s \<noteq> uid \<longrightarrow>
            revokeSession d sid uid = (Inl (ForbiddenException msg_no_autorizado), d))
       \<and> (\<forall>s. find (\<lambda>s. session_id s = sid) (sessions d) = Some s \<and> session_userId s = uid \<longrightarrow>
            fst (revokeSession d sid uid) = Inr msg_sesion_revocada
          \<and> sessions (snd (revokeSession d sid uid)) = filter (\<lambda>r. session_id r \<noteq> sid) (sessions d)
          \<and> users (snd (revokeSession d sid uid)) = users d)
       \<and> (sessions (snd (revokeSession d sid uid)) \<noteq> sessions d \<longrightarrow>
            (\<exists>s\<in>set (sessions d). session_id s = sid \<and> session_userId s = uid))"
proof (cases "find (\<lambda>s. session_id s = sid) (sessions d)")
  case None
  then show ?thesis by (simp add: revokeSession_healthy [OF assms])
next
  case (Some s)
  then have "s \<in> set (sessions d) \<and> session_id s = sid" by (rule find_SomeD)
  with Some show ?thesis by (auto simp add: revokeSession_healthy [OF assms])
qed

text \<open>
  Claim C5, the amended statement for Alice: session 7 does not exist, session 2 is Bob's,
  session 1 is hers.
\<close>

theorem revokeSession_forbidden_unless_owner_witness:
  "outage logged_in = None
   \<and> revokeSession logged_in 7 1 = (Inl (ForbiddenException msg_no_autorizado), logged_in)
   \<and> revokeSession logged_in 2 1 = (Inl (ForbiddenException msg_no_autorizado), logged_in)
   \<and> fst (revokeSession logged_in 1 1) = Inr msg_sesion_revocada
   \<and> sessions (snd (revokeSession logged_in 1 1)) = [bob_session]"
  using revokeSession_forbidden_unless_owner [OF outage_logged_in, of 7 1]
        revokeSession_forbidden_unless_owner [OF outage_logged_in, of 2 1]
        revokeSession_forbidden_unless_owner [OF outage_logged_in, of 1 1]
  by (simp add: outage_logged_in sessions_logged_in session_fields)

text \<open>
  Claim C6: on a store that answers, \<open>logoutAll\<close> succeeds, with no session of the user
  as well; afterwards the stored sessions are those of the other users, unchanged and in
  their order, the number of rows that went is the number of sessions the user had, and the
  users are untouched.
\<close>

theorem logoutAll_deletes_exactly_own_sessions:
  assumes "outage d = None"
  shows "fst (logoutAll d uid) = Inr msg_todas_cerradas
       \<and> sessions (snd (logoutAll d uid)) = filter (\<lambda>s. session_userId s \<noteq> uid) (sessions d)
       \<and> users (snd (logoutAll d uid)) = users d
       \<and> length (sessions (snd (logoutAll d uid)))
           + length (filter (\<lambda>s. session_userId s = uid) (sessions d)) = length (sessions d)
       \<and> (\<forall>s\<in>set (sessions d). session_userId s \<noteq> uid \<longrightarrow> s \<in> set (sessions (snd (logoutAll d uid))))
       \<and> (\<forall>s\<in>set (sessions (snd (logoutAll d uid))). session_userId s \<noteq> uid \<and> s \<in> set (sessions d))"
proof -
  have "logoutAll d uid =
          (Inr msg_todas_cerradas, d\<lparr>sessions := filter (\<lambda>s. session_userId s \<noteq> uid) (sessions d)\<rparr>)"
    using assms
    by (simp add: logoutAll_def prisma_defs store_call_healthy)
  moreover have "length (filter (\<lambda>s. session_userId s \<noteq> uid) (sessions d))
           + length (filter (\<lambda>s. session_userId s = uid) (sessions d)) = length (sessions d)"
    using sum_length_filter_compl [of "\<lambda>s. session_userId s = uid" "sessions d"] by simp
  ultimately show ?thesis by simp
qed

text \<open>
  Claim C6 for Alice: with one session of hers and one of Bob's, Bob's stays; with no
  session at all the call succeeds as well.
\<close>

theorem logoutAll_deletes_exactly_own_sessions_witness:
  "outage logged_in = None
   \<and> fst (logoutAll logged_in 1) = Inr msg_todas_cerradas
   \<and> sessions (snd (logoutAll logged_in 1)) = [bob_session]
   \<and> outage two_users = None
   \<and> fst (logoutAll two_users 1) = Inr msg_todas_cerradas
   \<and> sessions (snd (logoutAll two_users 1)) = []"
proof -
  have t: "outage two_users = None" "sessions two_users = []"
    by (simp_all add: two_users_def)
  from logoutAll_deletes_exactly_own_sessions [OF outage_logged_in, of 1]
       logoutAll_deletes_exactly_own_sessions [OF t(1), of 1]
  show ?thesis
    by (simp add: outage_logged_in t sessions_logged_in session_fields)
qed

section \<open>Credentials\<close>

text \<open>
  Claim C7: \<open>validateUser\<close> with an email that no user has and \<open>validateUser\<close> with the
  email of a user and a password that does not match end in the same result and the same
  store; on a store that answers, that result is Unauthorized with the one message for
  invalid credentials.
\<close>

theorem validateUser_no_user_existence_leak:
  assumes "find (\<lambda>u. user_email u = e1) (users d) = None"
    and "find (\<lambda>u. user_email u = e2) (users d) = Some u"
    and "\<not> bcrypt_compare p2 (user_password u)"
  shows "validateUser d e1 p1 = validateUser d e2 p2
       \<and> (outage d = None \<longrightarrow>
            fst (validateUser d e2 p2) = Inl (UnauthorizedException msg_credenciales_invalidas))"
  using assms
  by (cases d rule: outage_cases)
     (simp_all add: validateUser_def users_defs prisma_defs store_call_def)

text \<open>
  Claim C7 on the example store: an unknown email and Alice's email with a wrong password
  fail alike, and Alice's own password is accepted.
\<close>

theorem validateUser_no_user_existence_leak_witness:
  "validateUser logged_in ''nobody@x.com'' ''pw1'' = validateUser logged_in ''a@x.com'' ''wrong''
   \<and> fst (validateUser logged_in ''a@x.com'' ''wrong'') =
       Inl (UnauthorizedException msg_credenciales_invalidas)
   \<and> fst (validateUser logged_in ''a@x.com'' ''pw1'') = Inr alice"
  using validateUser_no_user_existence_leak
          [of "''nobody@x.com''" logged_in "''a@x.com''" alice "''wrong''" "''pw1''"]
  by (simp add: example_defs validateUser_def users_defs prisma_defs store_call_def)

section \<open>Token lifetimes\<close>

text \<open>
  Claim C8: for the pair of tokens that \<open>login\<close>, \<open>refreshToken\<close> or \<open>generateTokens\<close>
  mints at time \<open>T\<close>, verification accepts the access token at every time up to
  \<open>T\<close> plus 15 minutes and rejects it with \<open>TokenExpired\<close> at every later time, and
  accepts the refresh token up to \<open>T\<close> plus 7 days and rejects it after; a refresh with
  the refresh token after that time fails with Unauthorized on every store.
\<close>

theorem token_lifetimes:
  assumes "fst (login cfg T uuid d u req) = Inr (a, r)
         \<or> fst (refreshToken cfg T d tok) = Inr (a, r)
         \<or> generateTokens cfg T uid em = (a, r)"
  shows "(t \<le> T + 15 * 60 \<longrightarrow> (\<exists>c. jwt_verify t a (JWT_SECRET cfg) = Inr c))
       \<and> (T + 15 * 60 < t \<longrightarrow> jwt_verify t a (JWT_SECRET cfg) = Inl TokenExpired)
       \<and> (t \<le> T + 7 * 24 * 60 * 60 \<longrightarrow> (\<exists>c. jwt_verify t r (JWT_REFRESH_SECRET cfg) = Inr c))
       \<and> (T + 7 * 24 * 60 * 60 < t \<longrightarrow>
            jwt_verify t r (JWT_REFRESH_SECRET cfg) = Inl TokenExpired
          \<and> fst (refreshToken cfg t d' r) = Inl (UnauthorizedException msg_token_invalido))"
proof -
  have "fst (refreshToken cfg T d tok) = Inr (a, r) \<Longrightarrow> fst (refreshToken_try cfg T d tok) = Inr (a, r)"
    by (simp add: refreshToken_fst split: sum.splits)
  with assms obtain s e j where
    a: "a = jwt_sign T s e None (JWT_SECRET cfg) expiresIn_15m" and
    r: "r = jwt_sign T s e j (JWT_REFRESH_SECRET cfg) expiresIn_7d"
    by (auto dest!: login_tokens refreshToken_try_tokens simp: generateTokens_def Let_def)
  have va: "jwt_verify t a (JWT_SECRET cfg) =
      (if T + 15 * 60 < t then Inl TokenExpired
       else Inr \<lparr>sub = s, email = e, jti = None, iat = T, exp = T + 15 * 60\<rparr>)"
    by (simp add: a jwt_verify_sign expiresIn_15m_def)
  have vr: "jwt_verify t r (JWT_REFRESH_SECRET cfg) =
      (if T + 7 * 24 * 60 * 60 < t then Inl TokenExpired
       else Inr \<lparr>sub = s, email = e, jti = j, iat = T, exp = T + 7 * 24 * 60 * 60\<rparr>)"
    by (simp add: r jwt_verify_sign expiresIn_7d_def)
  show ?thesis
    using refreshToken_rejects [of t r cfg TokenExpired d'] by (simp add: va vr)
qed

text \<open>
  Claim C8 for the tokens of Alice's login at time 1000: the access token is accepted at
  1900 and expired at 1901, the refresh token is accepted at 605800 and expired at 605801.
\<close>

theorem token_lifetimes_witness:
  "fst (login cfg0 1000 ''jti-a'' two_users alice firefox) = Inr (alice_access, alice_refresh)
   \<and> jwt_verify 1900 alice_access (JWT_SECRET cfg0) =
        Inr \<lparr>sub = 1, email = None, jti = None, iat = 1000, exp = 1900\<rparr>
   \<and> jwt_verify 1901 alice_access (JWT_SECRET cfg0) = Inl TokenExpired
   \<and> jwt_verify 605800 alice_refresh (JWT_REFRESH_SECRET cfg0) = Inr alice_claims
   \<and> jwt_verify 605801 alice_refresh (JWT_REFRESH_SECRET cfg0) = Inl TokenExpired
   \<and> fst (refreshToken cfg0 605801 logged_in alice_refresh) =
        Inl (UnauthorizedException msg_token_invalido)"
  using token_lifetimes [of cfg0 1000 "''jti-a''" two_users alice firefox alice_access alice_refresh
                          alice_refresh 1 "''a''" 1900 logged_in]
        token_lifetimes [of cfg0 1000 "''jti-a''" two_users alice firefox alice_access alice_refresh
                          alice_refresh 1 "''a''" 605801 logged_in]
  by (simp add: login_alice) (simp add: example_defs)

section \<open>Legacy logout and missing users\<close>

text \<open>
  Claim C9: on a store that answers, \<open>logout\<close> leaves every Session row in place and
  changes nothing in the users but the stored refresh token of the user, which becomes
  null; a refresh after the logout has the outcome it had before, so the refresh token of
  each live session of the user is still accepted.
\<close>

theorem logout_keeps_sessions:
  assumes "outage d = None"
  shows "sessions (snd (logout d uid)) = sessions d
       \<and> users (snd (logout d uid)) =
           map (\<lambda>v. if user_id v = uid then v\<lparr>user_refreshToken := None\<rparr> else v) (users d)
       \<and> fst (refreshToken cfg now (snd (logout d uid)) tok) = fst (refreshToken cfg now d tok)"
proof -
  let ?d' = "d\<lparr>users := map (\<lambda>v. if user_id v = uid then v\<lparr>user_refreshToken := None\<rparr> else v) (users d)\<rparr>"
  have after: "snd (logout d uid) = ?d'"
    by (rule logout_store [OF assms])
  have "fst (refreshToken_try cfg now ?d' tok) = fst (refreshToken_try cfg now d tok)"
    by (rule refreshToken_try_users_update [OF assms])
  then have "fst (refreshToken cfg now ?d' tok) = fst (refreshToken cfg now d tok)"
    by (simp add: refreshToken_fst)
  with after show ?thesis by simp
qed

text \<open>Claim C9 for Alice: after her logout both sessions are stored and her token refreshes.\<close>

theorem logout_keeps_sessions_witness:
  "outage logged_in = None
   \<and> sessions (snd (logout logged_in 1)) = [alice_session, bob_session]
   \<and> fst (refreshToken cfg0 2000 (snd (logout logged_in 1)) alice_refresh) =
        Inr (alice_access2, alice_refresh2)"
  using logout_keeps_sessions [OF outage_logged_in, of 1 cfg0 2000 alice_refresh]
  by (simp add: refresh_alice sessions_logged_in outage_logged_in)

text \<open>
  Claim C10: a refresh token that verifies, presented when no user has the id that is its
  subject, is refused with Unauthorized, also when its session is still stored.
\<close>

theorem refresh_requires_user:
  assumes "jwt_verify now tok (JWT_REFRESH_SECRET cfg) = Inr c"
    and "find (\<lambda>u. user_id u = sub c) (users d) = None"
  shows "fst (refreshToken cfg now d tok) = Inl (UnauthorizedException msg_token_invalido)"
  using assms
  by (cases d rule: outage_cases)
     (simp_all add: refreshToken_fst refreshToken_try_def users_defs prisma_defs store_call_def)

text \<open>
  Claim C10 for Alice's token on the store that has her session and not her user row.
\<close>

theorem refresh_requires_user_witness:
  "jwt_verify 2000 alice_refresh (JWT_REFRESH_SECRET cfg0) = Inr alice_claims
   \<and> find (\<lambda>u. user_id u = sub alice_claims) (users orphaned) = None
   \<and> find (\<lambda>s. session_jti s = ''jti-a'') (sessions orphaned) = Some alice_session
   \<and> fst (refreshToken cfg0 2000 orphaned alice_refresh) =
        Inl (UnauthorizedException msg_token_invalido)"
proof -
  have v: "jwt_verify 2000 alice_refresh (JWT_REFRESH_SECRET cfg0) = Inr alice_claims"
    by (simp add: alice_refresh_def alice_claims_def cfg0_def)
  have u: "find (\<lambda>u. user_id u = sub alice_claims) (users orphaned) = None"
    by (simp add: orphaned_def bob_def alice_claims_def)
  have s: "find (\<lambda>s. session_jti s = ''jti-a'') (sessions orphaned) = Some alice_session"
    by (simp add: orphaned_def session_fields)
  from v u s refresh_requires_user [OF v u] show ?thesis by simp
qed

end
